theory Spec2Isabelle
  imports Main "HOL-Library.Sublist"
begin

section \<open>JavaScript strings\<close>

text \<open>
  A JavaScript string is modelled as a \<open>string\<close>: a list of code units, restricted to the
  code units below 256 (ASCII and Latin-1). The helpers below follow ECMAScript on that
  range: \<open>trim\<close> strips white space and line terminators at both ends,
  \<open>toLowerCase\<close> maps \<open>A-Z\<close> and the upper-case Latin-1 letters to lower case,
  \<open>startsWith\<close> and \<open>includes\<close> (here \<open>includes_str\<close>) search from position 0.
\<close>

definition isWhiteSpace :: "char \<Rightarrow> bool" where
  "isWhiteSpace c = (of_char c \<in> {9, 10, 11, 12, 13, 32, 160 :: nat})"

definition trim :: "string \<Rightarrow> string" where
  "trim s = rev (dropWhile isWhiteSpace (rev (dropWhile isWhiteSpace s)))"

definition lower_char :: "char \<Rightarrow> char" where
  "lower_char c = (let n = of_char c :: nat in
     if (65 \<le> n \<and> n \<le> 90) \<or> (192 \<le> n \<and> n \<le> 214) \<or> (216 \<le> n \<and> n \<le> 222)
     then char_of (n + 32) else c)"

definition toLowerCase :: "string \<Rightarrow> string" where
  "toLowerCase s = map lower_char s"

definition upper_ascii :: "char \<Rightarrow> char" where
  "upper_ascii c = (let n = of_char c :: nat in
     if 97 \<le> n \<and> n \<le> 122 then char_of (n - 32) else c)"

definition startsWith :: "string \<Rightarrow> string \<Rightarrow> bool" where
  "startsWith s p = (take (length p) s = p)"

fun includes_str :: "string \<Rightarrow> string \<Rightarrow> bool" where
  "includes_str [] q = (q = [])"
| "includes_str (c # s) q = (startsWith (c # s) q \<or> includes_str s q)"

text \<open>\<open>s.replace(pat, rep)\<close> with a string pattern: the first occurrence only.\<close>

fun replace_first :: "string \<Rightarrow> string \<Rightarrow> string \<Rightarrow> string" where
  "replace_first [] pat rep = (if pat = [] then rep else [])"
| "replace_first (c # s) pat rep =
     (if startsWith (c # s) pat then rep @ drop (length pat) (c # s)
      else c # replace_first s pat rep)"

text \<open>\<open>s.substr(start, len)\<close> for non-negative arguments.\<close>

definition substr :: "string \<Rightarrow> nat \<Rightarrow> nat \<Rightarrow> string" where
  "substr s start len = take len (drop start s)"

text \<open>\<open>n.toString(36)\<close> for a non-negative integer.\<close>

definition digit36 :: "nat \<Rightarrow> char" where
  "digit36 d = ''0123456789abcdefghijklmnopqrstuvwxyz'' ! d"

function toString36 :: "nat \<Rightarrow> string" where
  "toString36 n = (if n < 36 then [digit36 n] else toString36 (n div 36) @ [digit36 (n mod 36)])"
  by pat_completeness auto
termination
  by (relation "measure id") simp_all

declare toString36.simps [simp del]

section \<open>Rows of the two tables\<close>

text \<open>
  The columns of \<open>supabase-schema.sql\<close> that the client reads or writes. A nullable
  column is an \<open>option\<close>; \<open>title\<close> and \<open>url\<close> are \<open>NOT NULL\<close>. The
  boolean columns are read for their truthiness only, so \<open>null\<close> is \<open>False\<close>.
  The two timestamps are never inspected by the client and are left out.
\<close>

record folder =
  f_id :: string
  f_user_id :: string
  name :: string
  is_default :: bool

record bookmark =
  b_id :: string
  b_user_id :: string
  folder_id :: "string option"
  url :: string
  title :: string
  description :: "string option"
  thumbnail :: "string option"
  tags :: "string list option"
  is_private :: bool
  share_id :: "string option"

text \<open>The object literals handed to \<open>create\<close>, and the fields an update may carry.\<close>

record new_folder =
  nf_user_id :: string
  nf_name :: string
  nf_is_default :: bool

record new_bookmark =
  n_user_id :: string
  n_url :: "string option"
  n_title :: string
  n_description :: string
  n_thumbnail :: string
  n_tags :: "string list"
  n_folder_id :: "string option"
  n_is_private :: bool

datatype field =
    Title string
  | Description string
  | Tags "string list"
  | IsPrivate bool
  | ShareId string
  | FolderId "string option"

datatype error = Error (message: "string option")

section \<open>supabaseService.js: URL utilities\<close>

text \<open>
  \<open>new URL(text)\<close> is the platform's constructor, not code of this repository. Its
  first steps are fixed by the URL Standard's basic URL parser (called without a base URL)
  and are written out here: leading and trailing C0 controls and spaces are stripped, tabs
  and newlines are removed, then the scheme start state and the scheme state read
  \<open>alpha (alpha | digit | + | - | .)* :\<close>; when no scheme is found the parser fails,
  because there is no base URL. Everything after the colon (authority, host, path,
  serialisation) is the parameter \<open>rest\<close>: given the lower-cased scheme and the
  remaining input it fails or yields the serialised \<open>href\<close> and the \<open>hostname\<close>.
  The \<open>protocol\<close> getter is the scheme followed by a colon.
\<close>

record url_object =
  protocol :: string
  href :: string
  hostname :: string

type_synonym url_rest = "string \<Rightarrow> string \<Rightarrow> (string \<times> string) option"

definition isC0ControlOrSpace :: "char \<Rightarrow> bool" where
  "isC0ControlOrSpace c = ((of_char c :: nat) \<le> 32)"

definition isTabOrNewline :: "char \<Rightarrow> bool" where
  "isTabOrNewline c = (of_char c \<in> {9, 10, 13 :: nat})"

definition isAsciiAlpha :: "char \<Rightarrow> bool" where
  "isAsciiAlpha c = (let n = of_char c :: nat in (65 \<le> n \<and> n \<le> 90) \<or> (97 \<le> n \<and> n \<le> 122))"

definition isAsciiDigit :: "char \<Rightarrow> bool" where
  "isAsciiDigit c = (let n = of_char c :: nat in 48 \<le> n \<and> n \<le> 57)"

definition lower_ascii :: "char \<Rightarrow> char" where
  "lower_ascii c = (let n = of_char c :: nat in
     if 65 \<le> n \<and> n \<le> 90 then char_of (n + 32) else c)"

definition url_input :: "string \<Rightarrow> string" where
  "url_input s =
     filter (\<lambda>c. \<not> isTabOrNewline c)
       (rev (dropWhile isC0ControlOrSpace (rev (dropWhile isC0ControlOrSpace s))))"

fun scheme_state :: "string \<Rightarrow> string \<Rightarrow> (string \<times> string) option" where
  "scheme_state buffer [] = None"
| "scheme_state buffer (c # cs) =
     (if isAsciiAlpha c \<or> isAsciiDigit c \<or> c = CHR ''+'' \<or> c = CHR ''-'' \<or> c = CHR ''.''
      then scheme_state (buffer @ [lower_ascii c]) cs
      else if c = CHR '':'' then Some (buffer, cs)
      else None)"

definition scheme_start_state :: "string \<Rightarrow> (string \<times> string) option" where
  "scheme_start_state input =
     (case input of
        [] \<Rightarrow> None
      | c # cs \<Rightarrow> if isAsciiAlpha c then scheme_state [lower_ascii c] cs else None)"

definition new_URL :: "url_rest \<Rightarrow> string \<Rightarrow> url_object option" where
  "new_URL rest s =
     (case scheme_start_state (url_input s) of
        None \<Rightarrow> None
      | Some (scheme, remaining) \<Rightarrow>
          (case rest scheme remaining of
             None \<Rightarrow> None
           | Some (h, hn) \<Rightarrow> Some \<lparr>protocol = scheme @ '':'', href = h, hostname = hn\<rparr>))"

text \<open>
  The argument both utilities hand to the constructor:
  \<^verbatim>\<open>urlString.startsWith('http') ? urlString : `https://${urlString}`\<close>
\<close>

definition url_argument :: "string \<Rightarrow> string" where
  "url_argument urlString =
     (if startsWith urlString ''http'' then urlString else ''https://'' @ urlString)"

definition isValidUrl :: "url_rest \<Rightarrow> string \<Rightarrow> bool" where
  "isValidUrl rest urlString =
     (case new_URL rest (url_argument urlString) of
        Some u \<Rightarrow> protocol u = ''http:'' \<or> protocol u = ''https:''
      | None \<Rightarrow> False)"

definition normalizeUrl :: "url_rest \<Rightarrow> string \<Rightarrow> string option" where
  "normalizeUrl rest urlString =
     (case new_URL rest (url_argument urlString) of
        Some u \<Rightarrow> Some (href u)
      | None \<Rightarrow> None)"

text \<open>
  For comparison, the normalisation as the specification words it: trim the input,
  prefix \<open>https://\<close> when it lacks a scheme, parse, return the serialised URL.
\<close>

definition normalize_as_specified :: "url_rest \<Rightarrow> string \<Rightarrow> string option" where
  "normalize_as_specified rest rawUrlText =
     (let t = trim rawUrlText;
          t = (if scheme_start_state (url_input t) = None then ''https://'' @ t else t)
      in case new_URL rest t of Some u \<Rightarrow> Some (href u) | None \<Rightarrow> None)"

record metadata =
  m_title :: string
  m_description :: string
  m_thumbnail :: string
  m_domain :: string

definition fetchUrlMetadata :: "url_rest \<Rightarrow> string \<Rightarrow> metadata" where
  "fetchUrlMetadata rest u =
     (case new_URL rest u of
        Some urlObj \<Rightarrow>
          (let domain = replace_first (hostname urlObj) ''www.'' '''';
               piece = takeWhile (\<lambda>c. c \<noteq> CHR ''.'') domain
           in \<lparr>m_title = (case piece of [] \<Rightarrow> [] | c # cs \<Rightarrow> upper_ascii c # cs),
               m_description = ''Visit '' @ domain @ '' for more information'',
               m_thumbnail = ''https://www.google.com/s2/favicons?domain='' @ domain @ ''&sz=128'',
               m_domain = domain\<rparr>)
      | None \<Rightarrow>
          \<lparr>m_title = ''Untitled'', m_description = '''', m_thumbnail = '''', m_domain = ''''\<rparr>)"

section \<open>The component's state and its surroundings\<close>

text \<open>
  Everything outside the component is a parameter. A \<open>'r platform\<close> gives, over a
  state \<open>'r\<close> of the outside world, the answers of the Supabase client to the queries
  that \<open>supabaseService.js\<close> builds (an error or the data of \<open>{ data, error }\<close>), the
  user's answer to \<open>confirm\<close>, \<open>Math.random().toString(36)\<close>, \<open>Date.now()\<close> and
  the rest of the URL parser.
\<close>

record 'r platform =
  select_folders :: "string \<Rightarrow> 'r \<Rightarrow> (error + folder list) \<times> 'r"
  insert_folder :: "new_folder \<Rightarrow> 'r \<Rightarrow> (error + folder) \<times> 'r"
  delete_folder :: "string \<Rightarrow> 'r \<Rightarrow> error option \<times> 'r"
  select_bookmarks :: "string \<Rightarrow> 'r \<Rightarrow> (error + bookmark list) \<times> 'r"
  insert_bookmark :: "new_bookmark \<Rightarrow> 'r \<Rightarrow> (error + bookmark) \<times> 'r"
  update_bookmark :: "string \<Rightarrow> field list \<Rightarrow> 'r \<Rightarrow> (error + bookmark) \<times> 'r"
  select_bookmark_id :: "string \<Rightarrow> string option \<Rightarrow> 'r \<Rightarrow> (error + string option) \<times> 'r"
  confirm :: "string \<Rightarrow> 'r \<Rightarrow> bool \<times> 'r"
  random36 :: "'r \<Rightarrow> string \<times> 'r"
  date_now :: "'r \<Rightarrow> nat \<times> 'r"
  url_rest :: url_rest

text \<open>The calls of the service layer, logged in the order they are issued.\<close>

datatype request =
    FoldersGetAll string
  | FoldersCreate new_folder
  | FoldersDelete string
  | BookmarksGetAll string
  | BookmarksCreate new_bookmark
  | BookmarksUpdate string "field list"
  | BookmarksCheckDuplicate string "string option"

text \<open>The number of bookmark update calls in a log.\<close>

definition update_calls :: "request list \<Rightarrow> nat" where
  "update_calls rs =
     length (filter (\<lambda>r. case r of BookmarksUpdate ident updates \<Rightarrow> True | _ \<Rightarrow> False) rs)"

text \<open>
  The \<open>useState\<close> cells of \<open>BookmarkManager\<close> that the handlers below touch (the two
  lists are the local mirror), the outside world, the log of service calls and the
  \<open>alert\<close> boxes shown.
\<close>

record 'r world =
  bookmarks :: "bookmark list"
  folders :: "folder list"
  selectedFolder :: string
  shareModal :: "bookmark option"
  urlInput :: string
  urlError :: string
  showAddModal :: bool
  isLoadingMetadata :: bool
  loading :: bool
  outside :: 'r
  requests :: "request list"
  alerts :: "string list"

section \<open>supabaseService.js: the service layer\<close>

text \<open>Each service function awaits one query, throws its error or returns its data.\<close>

definition foldersService_getAll ::
  "'r platform \<Rightarrow> string \<Rightarrow> 'r world \<Rightarrow> (error + folder list) \<times> 'r world" where
  "foldersService_getAll P userId w =
     (case select_folders P userId (outside w) of
        (res, r) \<Rightarrow> (res, w\<lparr>outside := r, requests := requests w @ [FoldersGetAll userId]\<rparr>))"

definition foldersService_create ::
  "'r platform \<Rightarrow> new_folder \<Rightarrow> 'r world \<Rightarrow> (error + folder) \<times> 'r world" where
  "foldersService_create P nf w =
     (case insert_folder P nf (outside w) of
        (res, r) \<Rightarrow> (res, w\<lparr>outside := r, requests := requests w @ [FoldersCreate nf]\<rparr>))"

definition foldersService_delete ::
  "'r platform \<Rightarrow> string \<Rightarrow> 'r world \<Rightarrow> (error + unit) \<times> 'r world" where
  "foldersService_delete P folderId w =
     (case delete_folder P folderId (outside w) of
        (err, r) \<Rightarrow>
          ((case err of Some e \<Rightarrow> Inl e | None \<Rightarrow> Inr ()),
           w\<lparr>outside := r, requests := requests w @ [FoldersDelete folderId]\<rparr>))"

definition bookmarksService_getAll ::
  "'r platform \<Rightarrow> string \<Rightarrow> 'r world \<Rightarrow> (error + bookmark list) \<times> 'r world" where
  "bookmarksService_getAll P userId w =
     (case select_bookmarks P userId (outside w) of
        (res, r) \<Rightarrow> (res, w\<lparr>outside := r, requests := requests w @ [BookmarksGetAll userId]\<rparr>))"

definition bookmarksService_create ::
  "'r platform \<Rightarrow> new_bookmark \<Rightarrow> 'r world \<Rightarrow> (error + bookmark) \<times> 'r world" where
  "bookmarksService_create P nb w =
     (case insert_bookmark P nb (outside w) of
        (res, r) \<Rightarrow> (res, w\<lparr>outside := r, requests := requests w @ [BookmarksCreate nb]\<rparr>))"

definition bookmarksService_update ::
  "'r platform \<Rightarrow> string \<Rightarrow> field list \<Rightarrow> 'r world \<Rightarrow> (error + bookmark) \<times> 'r world" where
  "bookmarksService_update P ident updates w =
     (case update_bookmark P ident updates (outside w) of
        (res, r) \<Rightarrow>
          (res, w\<lparr>outside := r, requests := requests w @ [BookmarksUpdate ident updates]\<rparr>))"

definition bookmarksService_checkDuplicate ::
  "'r platform \<Rightarrow> string \<Rightarrow> string option \<Rightarrow> 'r world \<Rightarrow> (error + bool) \<times> 'r world" where
  "bookmarksService_checkDuplicate P userId u w =
     (case select_bookmark_id P userId u (outside w) of
        (res, r) \<Rightarrow>
          ((case res of Inl e \<Rightarrow> Inl e | Inr data \<Rightarrow> Inr (data \<noteq> None)),
           w\<lparr>outside := r, requests := requests w @ [BookmarksCheckDuplicate userId u]\<rparr>))"

definition generateShareId :: "'r platform \<Rightarrow> 'r world \<Rightarrow> string \<times> 'r world" where
  "generateShareId P w =
     (case random36 P (outside w) of
        (rnd, r1) \<Rightarrow>
          (case date_now P r1 of
             (now, r2) \<Rightarrow> (substr rnd 2 12 @ toString36 now, w\<lparr>outside := r2\<rparr>)))"

section \<open>bookmark-manager-supabase.jsx: the handlers\<close>

text \<open>
  A handler takes the world and returns it updated, together with the path it left by:
  \<open>Done\<close> at the end of the \<open>try\<close> block, \<open>Rejected\<close> at a validation
  \<open>return\<close>, \<open>Cancelled\<close> when \<open>confirm\<close> was declined, \<open>Failed\<close> through
  the \<open>catch\<close> block. The JavaScript promise resolves to \<open>undefined\<close> on every path,
  so a handler that awaits another one cannot see this value and the model of such a
  caller discards it. \<open>handleShareBookmark\<close> has no \<open>try\<close> block and no early
  \<open>return\<close>; its model returns the world alone.
\<close>

datatype outcome = Done | Rejected | Cancelled | Failed error

definition loadUserData_failed :: "error \<Rightarrow> 'r world \<Rightarrow> outcome \<times> 'r world" where
  "loadUserData_failed e w =
     (Failed e,
      w\<lparr>alerts := alerts w @ [''Error loading your data. Please refresh the page.''],
        loading := False\<rparr>)"

definition loadUserData :: "'r platform \<Rightarrow> string \<Rightarrow> 'r world \<Rightarrow> outcome \<times> 'r world" where
  "loadUserData P userId w =
     (case foldersService_getAll P userId (w\<lparr>loading := True\<rparr>) of
        (Inl e, w1) \<Rightarrow> loadUserData_failed e w1
      | (Inr foldersData, w1) \<Rightarrow>
          (case (if foldersData = []
                 then (case foldersService_create P
                              \<lparr>nf_user_id = userId, nf_name = ''All Bookmarks'',
                               nf_is_default = True\<rparr> w1 of
                         (Inl e, w2) \<Rightarrow> (Inl e, w2)
                       | (Inr defaultFolder, w2) \<Rightarrow> (Inr (), w2\<lparr>folders := [defaultFolder]\<rparr>))
                 else (Inr (), w1\<lparr>folders := foldersData\<rparr>)) of
             (Inl e, w2) \<Rightarrow> loadUserData_failed e w2
           | (Inr u, w2) \<Rightarrow>
               (case bookmarksService_getAll P userId w2 of
                  (Inl e, w3) \<Rightarrow> loadUserData_failed e w3
                | (Inr bookmarksData, w3) \<Rightarrow>
                    (Done, w3\<lparr>bookmarks := bookmarksData, loading := False\<rparr>))))"

text \<open>
  \<open>handleAddBookmark\<close>, for the signed-in user \<open>userId\<close> (\<open>currentUser.id\<close>; the form
  is rendered only when a user is signed in). \<open>normalizedUrl\<close> may be \<open>null\<close> as far
  as the types go, and \<open>new URL(null)\<close> parses the text \<open>null\<close>.
\<close>

definition error_mentions_duplicate :: "error \<Rightarrow> bool" where
  "error_mentions_duplicate e =
     (case message e of Some m \<Rightarrow> includes_str m ''duplicate'' | None \<Rightarrow> False)"

text \<open>The object literal that \<open>handleAddBookmark\<close> hands to \<open>create\<close>.\<close>

definition create_payload :: "url_rest \<Rightarrow> string \<Rightarrow> string option \<Rightarrow> string \<Rightarrow> new_bookmark" where
  "create_payload rest userId normalizedUrl selected =
     (let md = fetchUrlMetadata rest (case normalizedUrl of Some u \<Rightarrow> u | None \<Rightarrow> ''null'')
      in \<lparr>n_user_id = userId, n_url = normalizedUrl, n_title = m_title md,
          n_description = m_description md, n_thumbnail = m_thumbnail md,
          n_tags = [],
          n_folder_id = (if selected = ''all'' then None else Some selected),
          n_is_private = False\<rparr>)"

definition addBookmark_create ::
  "'r platform \<Rightarrow> string \<Rightarrow> string option \<Rightarrow> bookmark list \<Rightarrow> 'r world \<Rightarrow> outcome \<times> 'r world" where
  "addBookmark_create P userId normalizedUrl bookmarks0 w =
     (let w1 = w\<lparr>isLoadingMetadata := True\<rparr>
      in case bookmarksService_create P
                (create_payload (url_rest P) userId normalizedUrl (selectedFolder w)) w1 of
           (Inr newBookmark, w2) \<Rightarrow>
             (Done, w2\<lparr>bookmarks := newBookmark # bookmarks0, urlInput := [],
                       showAddModal := False, isLoadingMetadata := False\<rparr>)
         | (Inl e, w2) \<Rightarrow>
             (Failed e,
              w2\<lparr>urlError := (if error_mentions_duplicate e
                               then ''This bookmark already exists''
                               else ''Failed to add bookmark. Please try again.''),
                 isLoadingMetadata := False\<rparr>))"

definition handleAddBookmark :: "'r platform \<Rightarrow> string \<Rightarrow> 'r world \<Rightarrow> outcome \<times> 'r world" where
  "handleAddBookmark P userId w =
     (let w0 = w\<lparr>urlError := []\<rparr> in
      if trim (urlInput w) = [] then (Rejected, w0\<lparr>urlError := ''Please enter a URL''\<rparr>)
      else if \<not> isValidUrl (url_rest P) (urlInput w)
      then (Rejected,
            w0\<lparr>urlError := ''Please enter a valid URL (must start with http:// or https://)''\<rparr>)
      else
        (let normalizedUrl = normalizeUrl (url_rest P) (urlInput w) in
         case bookmarksService_checkDuplicate P userId normalizedUrl w0 of
           (Inr isDuplicate, w1) \<Rightarrow>
             if isDuplicate then (Rejected, w1\<lparr>urlError := ''This bookmark already exists''\<rparr>)
             else addBookmark_create P userId normalizedUrl (bookmarks w) w1
         | (Inl e, w1) \<Rightarrow> addBookmark_create P userId normalizedUrl (bookmarks w) w1))"

definition handleUpdateBookmark ::
  "'r platform \<Rightarrow> string \<Rightarrow> field list \<Rightarrow> 'r world \<Rightarrow> outcome \<times> 'r world" where
  "handleUpdateBookmark P bookmarkId updates w =
     (case bookmarksService_update P bookmarkId updates w of
        (Inr updatedBookmark, w1) \<Rightarrow>
          (Done,
           w1\<lparr>bookmarks := map (\<lambda>b. if b_id b = bookmarkId then updatedBookmark else b)
                               (bookmarks w)\<rparr>)
      | (Inl e, w1) \<Rightarrow> (Failed e, w1\<lparr>alerts := alerts w1 @ [''Failed to update bookmark'']\<rparr>))"

text \<open>\<open>!bookmark.share_id\<close>: \<open>null\<close> and the empty string are falsy.\<close>

definition no_share_id :: "bookmark \<Rightarrow> bool" where
  "no_share_id b = (case share_id b of None \<Rightarrow> True | Some t \<Rightarrow> t = [])"

definition handleShareBookmark :: "'r platform \<Rightarrow> bookmark \<Rightarrow> 'r world \<Rightarrow> 'r world" where
  "handleShareBookmark P bookmark w =
     (if no_share_id bookmark then
        (case generateShareId P w of
           (shareId, w1) \<Rightarrow>
             (case handleUpdateBookmark P (b_id bookmark) [ShareId shareId] w1 of
                (ignored, w2) \<Rightarrow> w2\<lparr>shareModal := Some (bookmark\<lparr>share_id := Some shareId\<rparr>)\<rparr>))
      else w\<lparr>shareModal := Some bookmark\<rparr>)"

text \<open>The \<open>for\<close> loop of \<open>handleDeleteFolder\<close>: the first failing update throws.\<close>

fun unfile_each :: "'r platform \<Rightarrow> bookmark list \<Rightarrow> 'r world \<Rightarrow> (error + unit) \<times> 'r world" where
  "unfile_each P [] w = (Inr (), w)"
| "unfile_each P (b # bs) w =
     (case bookmarksService_update P (b_id b) [FolderId None] w of
        (Inl e, w1) \<Rightarrow> (Inl e, w1)
      | (Inr updated, w1) \<Rightarrow> unfile_each P bs w1)"

definition deleteFolder_failed :: "error \<Rightarrow> 'r world \<Rightarrow> outcome \<times> 'r world" where
  "deleteFolder_failed e w = (Failed e, w\<lparr>alerts := alerts w @ [''Failed to delete folder'']\<rparr>)"

definition deleteFolder_question :: string where
  "deleteFolder_question =
     ''Delete this folder? Bookmarks will be moved to '' @ [CHR 0x22] @ ''unsorted'' @ [CHR 0x22]
       @ ''.''"

definition handleDeleteFolder :: "'r platform \<Rightarrow> string \<Rightarrow> 'r world \<Rightarrow> outcome \<times> 'r world" where
  "handleDeleteFolder P folderId w =
     (if (case find (\<lambda>f. f_id f = folderId) (folders w) of
            Some folder \<Rightarrow> is_default folder | None \<Rightarrow> False)
      then (Rejected, w)
      else
        (case confirm P deleteFolder_question (outside w) of
           (ok, r) \<Rightarrow>
             if \<not> ok then (Cancelled, w\<lparr>outside := r\<rparr>)
             else
               (case unfile_each P (filter (\<lambda>b. folder_id b = Some folderId) (bookmarks w))
                       (w\<lparr>outside := r\<rparr>) of
                  (Inl e, w1) \<Rightarrow> deleteFolder_failed e w1
                | (Inr u, w1) \<Rightarrow>
                    (case foldersService_delete P folderId w1 of
                       (Inl e, w2) \<Rightarrow> deleteFolder_failed e w2
                     | (Inr v, w2) \<Rightarrow>
                         (Done,
                          w2\<lparr>folders := filter (\<lambda>f. f_id f \<noteq> folderId) (folders w),
                             bookmarks := map (\<lambda>b. if folder_id b = Some folderId
                                                    then b\<lparr>folder_id := None\<rparr> else b)
                                              (bookmarks w),
                             selectedFolder := (if selectedFolder w = folderId then ''all''
                                                else selectedFolder w)\<rparr>)))))"

section \<open>bookmark-manager-supabase.jsx: filtering and search\<close>

definition isAllBookmarksFolder :: "folder list \<Rightarrow> string \<Rightarrow> bool" where
  "isAllBookmarksFolder fs selected =
     ((case find (\<lambda>f. f_id f = selected) fs of
         Some selectedFolderObj \<Rightarrow> is_default selectedFolderObj | None \<Rightarrow> False)
      \<or> selected = ''all'')"

definition matches_query :: "string \<Rightarrow> bookmark \<Rightarrow> bool" where
  "matches_query query b =
     (includes_str (toLowerCase (title b)) query
      \<or> (case description b of Some d \<Rightarrow> includes_str (toLowerCase d) query | None \<Rightarrow> False)
      \<or> includes_str (toLowerCase (url b)) query
      \<or> (case tags b of
            Some ts \<Rightarrow> list_ex (\<lambda>tag. includes_str (toLowerCase tag) query) ts
          | None \<Rightarrow> False))"

definition filteredBookmarks ::
  "bookmark list \<Rightarrow> folder list \<Rightarrow> string \<Rightarrow> string \<Rightarrow> bookmark list" where
  "filteredBookmarks bs fs selected filterQuery =
     (let filtered = bs;
          filtered = (if \<not> isAllBookmarksFolder fs selected
                      then filter (\<lambda>b. folder_id b = Some selected) filtered
                      else filtered);
          filtered = (if trim filterQuery \<noteq> []
                      then (let query = toLowerCase filterQuery
                            in filter (matches_query query) filtered)
                      else filtered)
      in filtered)"

section \<open>A reference platform\<close>

text \<open>
  One platform to run the handlers on: an in-memory store that follows
  \<open>supabase-schema.sql\<close> (\<open>UNIQUE(user_id, url)\<close>, \<open>share_id TEXT UNIQUE\<close>,
  \<open>url NOT NULL\<close>,
  \<open>folder_id ... ON DELETE SET NULL\<close>, \<open>.single()\<close> failing when no row matches),
  with a script of transport faults (one flag per query, \<open>True\<close> for a query that
  fails to reach the server), a script of answers to \<open>confirm\<close>, a script of
  \<open>Math.random().toString(36)\<close> texts and a clock.
\<close>

record sim =
  t_folders :: "folder list"
  t_bookmarks :: "bookmark list"
  faults :: "bool list"
  answers :: "bool list"
  randoms :: "string list"
  clock :: nat
  serial :: nat

definition network_error :: error where
  "network_error = Error (Some ''TypeError: Failed to fetch'')"

definition unique_violation :: "string \<Rightarrow> error" where
  "unique_violation constraint_name =
     Error (Some (''duplicate key value violates unique constraint '' @ [CHR 0x22]
                  @ constraint_name @ [CHR 0x22]))"

definition not_null_violation :: error where
  "not_null_violation =
     Error (Some (''null value in column '' @ [CHR 0x22] @ ''url'' @ [CHR 0x22]
                  @ '' violates not-null constraint''))"

definition no_rows :: error where
  "no_rows = Error (Some ''JSON object requested, multiple (or no) rows returned'')"

definition next_fault :: "sim \<Rightarrow> bool \<times> sim" where
  "next_fault s = (case faults s of [] \<Rightarrow> (False, s) | f # fs \<Rightarrow> (f, s\<lparr>faults := fs\<rparr>))"

fun apply_field :: "field \<Rightarrow> bookmark \<Rightarrow> bookmark" where
  "apply_field (Title t) b = b\<lparr>title := t\<rparr>"
| "apply_field (Description d) b = b\<lparr>description := Some d\<rparr>"
| "apply_field (Tags ts) b = b\<lparr>tags := Some ts\<rparr>"
| "apply_field (IsPrivate p) b = b\<lparr>is_private := p\<rparr>"
| "apply_field (ShareId t) b = b\<lparr>share_id := Some t\<rparr>"
| "apply_field (FolderId f) b = b\<lparr>folder_id := f\<rparr>"

definition sim_select_folders :: "string \<Rightarrow> sim \<Rightarrow> (error + folder list) \<times> sim" where
  "sim_select_folders userId s =
     (case next_fault s of
        (fault, s1) \<Rightarrow>
          if fault then (Inl network_error, s1)
          else (Inr (filter (\<lambda>f. f_user_id f = userId) (t_folders s1)), s1))"

definition sim_insert_folder :: "new_folder \<Rightarrow> sim \<Rightarrow> (error + folder) \<times> sim" where
  "sim_insert_folder nf s =
     (case next_fault s of
        (fault, s1) \<Rightarrow>
          if fault then (Inl network_error, s1)
          else
            (let row = \<lparr>f_id = ''f'' @ toString36 (serial s1), f_user_id = nf_user_id nf,
                        name = nf_name nf, is_default = nf_is_default nf\<rparr>
             in (Inr row, s1\<lparr>t_folders := t_folders s1 @ [row], serial := serial s1 + 1\<rparr>)))"

definition sim_delete_folder :: "string \<Rightarrow> sim \<Rightarrow> error option \<times> sim" where
  "sim_delete_folder folderId s =
     (case next_fault s of
        (fault, s1) \<Rightarrow>
          if fault then (Some network_error, s1)
          else
            (None,
             s1\<lparr>t_folders := filter (\<lambda>f. f_id f \<noteq> folderId) (t_folders s1),
                t_bookmarks := map (\<lambda>b. if folder_id b = Some folderId
                                          then b\<lparr>folder_id := None\<rparr> else b)
                                    (t_bookmarks s1)\<rparr>))"

definition sim_select_bookmarks :: "string \<Rightarrow> sim \<Rightarrow> (error + bookmark list) \<times> sim" where
  "sim_select_bookmarks userId s =
     (case next_fault s of
        (fault, s1) \<Rightarrow>
          if fault then (Inl network_error, s1)
          else (Inr (rev (filter (\<lambda>b. b_user_id b = userId) (t_bookmarks s1))), s1))"

definition sim_insert_bookmark :: "new_bookmark \<Rightarrow> sim \<Rightarrow> (error + bookmark) \<times> sim" where
  "sim_insert_bookmark nb s =
     (case next_fault s of
        (fault, s1) \<Rightarrow>
          if fault then (Inl network_error, s1)
          else
            (case n_url nb of
               None \<Rightarrow> (Inl not_null_violation, s1)
             | Some u \<Rightarrow>
                 if list_ex (\<lambda>b. b_user_id b = n_user_id nb \<and> url b = u) (t_bookmarks s1)
                 then (Inl (unique_violation ''bookmarks_user_id_url_key''), s1)
                 else
                   (let row = \<lparr>b_id = ''b'' @ toString36 (serial s1),
                               b_user_id = n_user_id nb, folder_id = n_folder_id nb,
                               url = u, title = n_title nb,
                               description = Some (n_description nb),
                               thumbnail = Some (n_thumbnail nb), tags = Some (n_tags nb),
                               is_private = n_is_private nb, share_id = None\<rparr>
                    in (Inr row,
                        s1\<lparr>t_bookmarks := t_bookmarks s1 @ [row],
                           serial := serial s1 + 1\<rparr>))))"

definition sim_update_bookmark ::
  "string \<Rightarrow> field list \<Rightarrow> sim \<Rightarrow> (error + bookmark) \<times> sim" where
  "sim_update_bookmark ident updates s =
     (case next_fault s of
        (fault, s1) \<Rightarrow>
          if fault then (Inl network_error, s1)
          else
            (case find (\<lambda>b. b_id b = ident) (t_bookmarks s1) of
               None \<Rightarrow> (Inl no_rows, s1)
             | Some b \<Rightarrow>
                 (let row = fold apply_field updates b
                  in if share_id row \<noteq> None
                        \<and> list_ex (\<lambda>x. b_id x \<noteq> ident \<and> share_id x = share_id row)
                             (t_bookmarks s1)
                     then (Inl (unique_violation ''bookmarks_share_id_key''), s1)
                     else (Inr row,
                           s1\<lparr>t_bookmarks := map (\<lambda>x. if b_id x = ident then row else x)
                                                  (t_bookmarks s1)\<rparr>))))"

definition sim_select_bookmark_id ::
  "string \<Rightarrow> string option \<Rightarrow> sim \<Rightarrow> (error + string option) \<times> sim" where
  "sim_select_bookmark_id userId u s =
     (case next_fault s of
        (fault, s1) \<Rightarrow>
          if fault then (Inl network_error, s1)
          else
            (Inr (map_option b_id
                    (find (\<lambda>b. b_user_id b = userId \<and> Some (url b) = u) (t_bookmarks s1))),
             s1))"

definition sim_confirm :: "string \<Rightarrow> sim \<Rightarrow> bool \<times> sim" where
  "sim_confirm question s =
     (case answers s of [] \<Rightarrow> (True, s) | a # as \<Rightarrow> (a, s\<lparr>answers := as\<rparr>))"

definition sim_random36 :: "sim \<Rightarrow> string \<times> sim" where
  "sim_random36 s =
     (case randoms s of [] \<Rightarrow> (''0.4fzyo82mvyr'', s) | x # xs \<Rightarrow> (x, s\<lparr>randoms := xs\<rparr>))"

definition sim_date_now :: "sim \<Rightarrow> nat \<times> sim" where
  "sim_date_now s = (clock s, s\<lparr>clock := clock s + 1\<rparr>)"

text \<open>
  What the rest of the URL parser makes of the inputs used in the examples below: the
  serialised \<open>href\<close> and the \<open>hostname\<close>, or \<open>None\<close> where it fails (a space is a
  forbidden host code point). Inputs outside the table are not used by any example.
\<close>

definition url_rest_examples :: "((string \<times> string) \<times> (string \<times> string) option) list" where
  "url_rest_examples =
     [((''https'', ''//example.com''), Some (''https://example.com/'', ''example.com'')),
      ((''https'', ''// example.com''), None),
      ((''https'', ''//httpbin.org''), Some (''https://httpbin.org/'', ''httpbin.org'')),
      ((''https'', ''//bin.org''), Some (''https://bin.org/'', ''bin.org'')),
      ((''https'', ''//github.com''), Some (''https://github.com/'', ''github.com'')),
      ((''https'', ''//example.com/''), Some (''https://example.com/'', ''example.com'')),
      ((''https'', ''//httpbin.org/''), Some (''https://httpbin.org/'', ''httpbin.org'')),
      ((''https'', ''//bin.org/''), Some (''https://bin.org/'', ''bin.org'')),
      ((''https'', ''//github.com/''), Some (''https://github.com/'', ''github.com''))]"

definition sim_url_rest :: url_rest where
  "sim_url_rest scheme remaining =
     (case map_of url_rest_examples (scheme, remaining) of Some r \<Rightarrow> r | None \<Rightarrow> None)"

definition sim_platform :: "sim platform" where
  "sim_platform =
     \<lparr>select_folders = sim_select_folders, insert_folder = sim_insert_folder,
      delete_folder = sim_delete_folder, select_bookmarks = sim_select_bookmarks,
      insert_bookmark = sim_insert_bookmark, update_bookmark = sim_update_bookmark,
      select_bookmark_id = sim_select_bookmark_id, confirm = sim_confirm,
      random36 = sim_random36, date_now = sim_date_now, url_rest = sim_url_rest\<rparr>"

text \<open>The world right after sign-in: an empty mirror, nothing shown, nothing called yet.\<close>

definition initial_world :: "'r \<Rightarrow> 'r world" where
  "initial_world r =
     \<lparr>bookmarks = [], folders = [], selectedFolder = ''all'', shareModal = None,
      urlInput = [], urlError = [], showAddModal = False, isLoadingMetadata = False,
      loading = True, outside = r, requests = [], alerts = []\<rparr>"

text \<open>Rows and stores for the examples.\<close>

definition folder_all :: folder where
  "folder_all = \<lparr>f_id = ''f0'', f_user_id = ''u1'', name = ''All Bookmarks'', is_default = True\<rparr>"

definition folder_work :: folder where
  "folder_work = \<lparr>f_id = ''f1'', f_user_id = ''u1'', name = ''Work'', is_default = False\<rparr>"

definition bm_github :: bookmark where
  "bm_github =
     \<lparr>b_id = ''b1'', b_user_id = ''u1'', folder_id = Some ''f1'', url = ''https://github.com/'',
      title = ''GitHub'', description = Some ''Visit github.com for more information'',
      thumbnail = None, tags = Some [''dev''], is_private = False, share_id = None\<rparr>"

definition bm_example :: bookmark where
  "bm_example =
     \<lparr>b_id = ''b2'', b_user_id = ''u1'', folder_id = Some ''f1'', url = ''https://example.com/'',
      title = ''Example'', description = None,
      thumbnail = None, tags = Some [], is_private = False, share_id = None\<rparr>"

definition bm_shared :: bookmark where
  "bm_shared =
     \<lparr>b_id = ''b3'', b_user_id = ''u1'', folder_id = None, url = ''https://bin.org/'',
      title = ''Bin'', description = None,
      thumbnail = None, tags = None, is_private = False, share_id = Some ''k3x9q0a1lw2v7''\<rparr>"

definition store0 :: sim where
  "store0 =
     \<lparr>t_folders = [folder_all, folder_work], t_bookmarks = [bm_shared, bm_example, bm_github],
      faults = [], answers = [], randoms = [], clock = 1000, serial = 10\<rparr>"

text \<open>The signed-in world over a store: the mirror as a completed load leaves it.\<close>

definition loaded_world :: "sim \<Rightarrow> sim world" where
  "loaded_world s =
     (initial_world s)\<lparr>folders := t_folders s, bookmarks := rev (t_bookmarks s),
                       loading := False\<rparr>"

text \<open>The same with a text typed into the URL field of the add-bookmark form.\<close>

definition typing_world :: "sim \<Rightarrow> string \<Rightarrow> sim world" where
  "typing_world s input = (loaded_world s)\<lparr>urlInput := input, showAddModal := True\<rparr>"

section \<open>Properties: strings and the filter\<close>

lemma startsWith_prefix: "startsWith s p \<longleftrightarrow> prefix p s"
  by (auto simp: startsWith_def prefix_def) (metis append_eq_conv_conj)

lemma includes_str_sublist: "includes_str s q \<longleftrightarrow> sublist q s"
  by (induction s) (auto simp: startsWith_prefix sublist_Cons_right)

lemma matches_query_iff:
  "matches_query query b \<longleftrightarrow>
     sublist query (toLowerCase (title b))
     \<or> (\<exists>d. description b = Some d \<and> sublist query (toLowerCase d))
     \<or> sublist query (toLowerCase (url b))
     \<or> (\<exists>ts tag. tags b = Some ts \<and> tag \<in> set ts \<and> sublist query (toLowerCase tag))"
  by (auto simp: matches_query_def includes_str_sublist list_ex_iff split: option.splits)

lemma filteredBookmarks_filter:
  "filteredBookmarks bs fs selected q =
     filter (\<lambda>b. (isAllBookmarksFolder fs selected \<or> folder_id b = Some selected)
                 \<and> (trim q = [] \<or> matches_query (toLowerCase q) b)) bs"
  by (simp add: filteredBookmarks_def Let_def)

lemma isAllBookmarksFolder_iff:
  "isAllBookmarksFolder fs selected \<longleftrightarrow>
     selected = ''all'' \<or> (\<exists>f. find (\<lambda>f. f_id f = selected) fs = Some f \<and> is_default f)"
  by (auto simp: isAllBookmarksFolder_def split: option.splits)

lemma lower_git: "toLowerCase ''git'' = ''git''"
  by code_simp

lemma trim_git: "trim ''git'' \<noteq> []"
  by code_simp

lemma trim_empty: "trim [] = []"
  by (simp add: trim_def)

lemma git_in_github: "sublist ''git'' (toLowerCase ''GitHub'')"
  unfolding includes_str_sublist [symmetric] by code_simp

lemma git_not_in_example: "\<not> sublist ''git'' (toLowerCase ''Example'')"
  unfolding includes_str_sublist [symmetric] by code_simp

text \<open>
  Claim C7. The filter/search evaluator is a function of the bookmark sequence, the folder
  list, the selected folder and the query alone. It keeps exactly the bookmarks that pass
  the folder test (no test when \<open>all\<close> or a default folder is selected) and the text
  test (no test when the query trims to the empty string; otherwise the lower-cased query
  must occur in the lower-cased title, description if present, URL or one of the tags), in
  their input order. On a mirror of a bookmark titled GitHub and one titled Example whose
  URL and description do not contain \<open>git\<close>, the query \<open>git\<close> keeps the first only,
  the empty query keeps both in order, and a folder filter matching neither keeps none.
\<close>

theorem filteredBookmarks_evaluator:
  "filteredBookmarks bs fs selected q =
     filter (\<lambda>b. (selected = ''all''
                   \<or> (\<exists>f. find (\<lambda>f. f_id f = selected) fs = Some f \<and> is_default f)
                   \<or> folder_id b = Some selected)
                 \<and> (trim q = []
                    \<or> sublist (toLowerCase q) (toLowerCase (title b))
                    \<or> (\<exists>d. description b = Some d \<and> sublist (toLowerCase q) (toLowerCase d))
                    \<or> sublist (toLowerCase q) (toLowerCase (url b))
                    \<or> (\<exists>ts tag. tags b = Some ts \<and> tag \<in> set ts
                                  \<and> sublist (toLowerCase q) (toLowerCase tag)))) bs
   \<and> subseq (filteredBookmarks bs fs selected q) bs
   \<and> (title b1 = ''GitHub'' \<and> title b2 = ''Example'' \<and> tags b2 = Some []
        \<and> \<not> sublist ''git'' (toLowerCase (url b2))
        \<and> (\<forall>d. description b2 = Some d \<longrightarrow> \<not> sublist ''git'' (toLowerCase d))
      \<longrightarrow> filteredBookmarks [b1, b2] fs ''all'' ''git'' = [b1])
   \<and> filteredBookmarks [b1, b2] fs ''all'' [] = [b1, b2]
   \<and> (selected \<noteq> ''all''
        \<and> (\<forall>f. find (\<lambda>f. f_id f = selected) fs = Some f \<longrightarrow> \<not> is_default f)
        \<and> folder_id b1 \<noteq> Some selected \<and> folder_id b2 \<noteq> Some selected
      \<longrightarrow> filteredBookmarks [b1, b2] fs selected q = [])"
proof (intro conjI impI)
  show "filteredBookmarks bs fs selected q =
     filter (\<lambda>b. (selected = ''all''
                   \<or> (\<exists>f. find (\<lambda>f. f_id f = selected) fs = Some f \<and> is_default f)
                   \<or> folder_id b = Some selected)
                 \<and> (trim q = []
                    \<or> sublist (toLowerCase q) (toLowerCase (title b))
                    \<or> (\<exists>d. description b = Some d \<and> sublist (toLowerCase q) (toLowerCase d))
                    \<or> sublist (toLowerCase q) (toLowerCase (url b))
                    \<or> (\<exists>ts tag. tags b = Some ts \<and> tag \<in> set ts
                                  \<and> sublist (toLowerCase q) (toLowerCase tag)))) bs"
    unfolding filteredBookmarks_filter isAllBookmarksFolder_iff matches_query_iff
    by (rule filter_cong) auto
next
  show "subseq (filteredBookmarks bs fs selected q) bs"
    by (simp add: filteredBookmarks_filter)
next
  assume h: "title b1 = ''GitHub'' \<and> title b2 = ''Example'' \<and> tags b2 = Some []
        \<and> \<not> sublist ''git'' (toLowerCase (url b2))
        \<and> (\<forall>d. description b2 = Some d \<longrightarrow> \<not> sublist ''git'' (toLowerCase d))"
  then show "filteredBookmarks [b1, b2] fs ''all'' ''git'' = [b1]"
    by (simp add: filteredBookmarks_filter isAllBookmarksFolder_iff matches_query_iff
        lower_git trim_git git_in_github git_not_in_example)
next
  show "filteredBookmarks [b1, b2] fs ''all'' [] = [b1, b2]"
    by (simp add: filteredBookmarks_filter isAllBookmarksFolder_iff trim_empty)
next
  assume "selected \<noteq> ''all''
        \<and> (\<forall>f. find (\<lambda>f. f_id f = selected) fs = Some f \<longrightarrow> \<not> is_default f)
        \<and> folder_id b1 \<noteq> Some selected \<and> folder_id b2 \<noteq> Some selected"
  then show "filteredBookmarks [b1, b2] fs selected q = []"
    by (simp add: filteredBookmarks_filter isAllBookmarksFolder_iff)
qed

theorem filteredBookmarks_evaluator_witness:
  "filteredBookmarks [bm_github, bm_example] [folder_all, folder_work] ''all'' ''git''
     = [bm_github]
   \<and> filteredBookmarks [bm_github, bm_example] [folder_all, folder_work] ''all'' []
     = [bm_github, bm_example]
   \<and> filteredBookmarks [bm_github, bm_example] [folder_all, folder_work] ''all'' ''  ''
     = [bm_github, bm_example]
   \<and> filteredBookmarks [bm_github, bm_example] [folder_all, folder_work] ''f9'' ''  ''
     = []
   \<and> subseq (filteredBookmarks [bm_github, bm_example] [folder_all, folder_work] ''f9'' ''  '')
       [bm_github, bm_example]"
proof -
  have h1: "title bm_github = ''GitHub'' \<and> title bm_example = ''Example''
        \<and> tags bm_example = Some []
        \<and> \<not> sublist ''git'' (toLowerCase (url bm_example))
        \<and> (\<forall>d. description bm_example = Some d \<longrightarrow> \<not> sublist ''git'' (toLowerCase d))"
    unfolding includes_str_sublist [symmetric] bm_github_def bm_example_def
    by (simp, code_simp)
  have h2: "''f9'' \<noteq> ''all''
        \<and> (\<forall>f. find (\<lambda>f. f_id f = ''f9'') [folder_all, folder_work] = Some f
               \<longrightarrow> \<not> is_default f)
        \<and> folder_id bm_github \<noteq> Some ''f9'' \<and> folder_id bm_example \<noteq> Some ''f9''"
    by (simp add: folder_all_def folder_work_def bm_github_def bm_example_def)
  have h3: "filteredBookmarks [bm_github, bm_example] [folder_all, folder_work] ''all'' ''  ''
              = [bm_github, bm_example]"
    by code_simp
  from filteredBookmarks_evaluator
         [of "[bm_github, bm_example]" "[folder_all, folder_work]" "''f9''" "''  ''"
             bm_github bm_example]
    h1 h2 h3
  show ?thesis by blast
qed

section \<open>Properties: deleting a folder, updating a bookmark\<close>

lemma find_distinct_id:
  "distinct (map f_id fs) \<Longrightarrow> f \<in> set fs \<Longrightarrow> find (\<lambda>x. f_id x = f_id f) fs = Some f"
  by (induction fs) (auto simp: image_iff)

text \<open>
  Claim C8. Deleting the default folder is rejected at the first line of the handler: for
  every folder of the mirror with \<open>is_default\<close> set (folder ids being unique), the
  handler returns with the world unchanged, so the mirror is unchanged, no
  \<open>confirm\<close> is shown and no remote call, in particular no folder delete, is issued.
\<close>

theorem handleDeleteFolder_default_rejected:
  assumes "f \<in> set (folders w)" and "is_default f" and "distinct (map f_id (folders w))"
  shows "handleDeleteFolder P (f_id f) w = (Rejected, w)"
  using assms by (simp add: handleDeleteFolder_def find_distinct_id)

theorem handleDeleteFolder_default_rejected_witness:
  "folder_all \<in> set (folders (loaded_world store0)) \<and> is_default folder_all
   \<and> distinct (map f_id (folders (loaded_world store0)))
   \<and> handleDeleteFolder sim_platform ''f0'' (loaded_world store0)
       = (Rejected, loaded_world store0)
   \<and> requests (snd (handleDeleteFolder sim_platform ''f0'' (loaded_world store0))) = []"
proof -
  have h1: "folder_all \<in> set (folders (loaded_world store0))"
    by (simp add: loaded_world_def initial_world_def store0_def)
  have h2: "is_default folder_all"
    by (simp add: folder_all_def)
  have h3: "distinct (map f_id (folders (loaded_world store0)))"
    by (simp add: loaded_world_def initial_world_def store0_def folder_all_def folder_work_def)
  have h4: "f_id folder_all = ''f0''"
    by (simp add: folder_all_def)
  have h5: "requests (loaded_world store0) = []"
    by (simp add: loaded_world_def initial_world_def)
  from handleDeleteFolder_default_rejected [OF h1 h2 h3, of sim_platform] h1 h2 h3 h4 h5
  show ?thesis by simp
qed

text \<open>
  Claim C5. A delete of a folder that runs to completion (the folder is not the default
  one, the user confirmed, every remote call succeeded) leaves a mirror in which every
  bookmark that referenced the folder has \<open>folder_id = null\<close> and is otherwise as
  before, every other bookmark is untouched, the number of bookmarks is unchanged, and
  the folder is absent from the folder list.
\<close>

theorem handleDeleteFolder_success_unfiles:
  assumes "handleDeleteFolder P folderId w = (Done, w')"
  shows "bookmarks w' =
           map (\<lambda>b. if folder_id b = Some folderId then b\<lparr>folder_id := None\<rparr> else b)
             (bookmarks w)
       \<and> length (bookmarks w') = length (bookmarks w)
       \<and> (\<forall>b \<in> set (bookmarks w'). folder_id b \<noteq> Some folderId)
       \<and> folders w' = filter (\<lambda>f. f_id f \<noteq> folderId) (folders w)
       \<and> (\<forall>f \<in> set (folders w'). f_id f \<noteq> folderId)"
proof -
  from assms
  have bs: "bookmarks w' =
              map (\<lambda>b. if folder_id b = Some folderId then b\<lparr>folder_id := None\<rparr> else b)
                (bookmarks w)"
    and fs: "folders w' = filter (\<lambda>f. f_id f \<noteq> folderId) (folders w)"
    by (auto simp: handleDeleteFolder_def deleteFolder_failed_def
        split: if_splits prod.splits sum.splits)
  from bs have "length (bookmarks w') = length (bookmarks w)"
    by simp
  moreover from bs have "\<forall>b \<in> set (bookmarks w'). folder_id b \<noteq> Some folderId"
    by auto
  moreover from fs have "\<forall>f \<in> set (folders w'). f_id f \<noteq> folderId"
    by simp
  ultimately show ?thesis
    using bs fs by blast
qed

theorem handleDeleteFolder_success_unfiles_witness:
  "fst (handleDeleteFolder sim_platform ''f1'' (loaded_world store0)) = Done
   \<and> bookmarks (loaded_world store0) = [bm_github, bm_example, bm_shared]
   \<and> bookmarks (snd (handleDeleteFolder sim_platform ''f1'' (loaded_world store0)))
       = [bm_github\<lparr>folder_id := None\<rparr>, bm_example\<lparr>folder_id := None\<rparr>, bm_shared]
   \<and> length (bookmarks (snd (handleDeleteFolder sim_platform ''f1'' (loaded_world store0))))
       = length (bookmarks (loaded_world store0))
   \<and> folders (snd (handleDeleteFolder sim_platform ''f1'' (loaded_world store0)))
       = [folder_all]"
proof -
  have d: "fst (handleDeleteFolder sim_platform ''f1'' (loaded_world store0)) = Done"
    by code_simp
  then have h: "handleDeleteFolder sim_platform ''f1'' (loaded_world store0)
                  = (Done, snd (handleDeleteFolder sim_platform ''f1'' (loaded_world store0)))"
    by (metis prod.collapse)
  have m: "bookmarks (loaded_world store0) = [bm_github, bm_example, bm_shared]"
    by (simp add: loaded_world_def initial_world_def store0_def)
  have f: "folders (loaded_world store0) = [folder_all, folder_work]"
    by (simp add: loaded_world_def initial_world_def store0_def)
  have i: "folder_id bm_github = Some ''f1''" "folder_id bm_example = Some ''f1''"
    "folder_id bm_shared = None" "f_id folder_all = ''f0''" "f_id folder_work = ''f1''"
    by (simp_all add: bm_github_def bm_example_def bm_shared_def folder_all_def folder_work_def)
  from handleDeleteFolder_success_unfiles [OF h] d m f i
  show ?thesis by simp
qed

text \<open>
  Claim C9. A failed update call leaves the mirror exactly as it was: the handler only
  logs the call and shows an alert, so no field of the request is applied to the
  bookmark and no other bookmark or folder changes.
\<close>

theorem handleUpdateBookmark_failure_frame:
  assumes "fst (update_bookmark P bookmarkId updates (outside w)) = Inl e"
  shows "handleUpdateBookmark P bookmarkId updates w =
           (Failed e,
            w\<lparr>outside := snd (update_bookmark P bookmarkId updates (outside w)),
              requests := requests w @ [BookmarksUpdate bookmarkId updates],
              alerts := alerts w @ [''Failed to update bookmark'']\<rparr>)
       \<and> bookmarks (snd (handleUpdateBookmark P bookmarkId updates w)) = bookmarks w
       \<and> folders (snd (handleUpdateBookmark P bookmarkId updates w)) = folders w"
  using assms
  by (cases "update_bookmark P bookmarkId updates (outside w)")
     (simp add: handleUpdateBookmark_def bookmarksService_update_def)

theorem handleUpdateBookmark_failure_frame_witness:
  "fst (update_bookmark sim_platform ''b1'' [Title ''Hub'', ShareId ''k3x9q0a1lw2v7'']
          (outside (loaded_world store0)))
     = Inl (unique_violation ''bookmarks_share_id_key'')
   \<and> bookmarks (snd (handleUpdateBookmark sim_platform ''b1''
                        [Title ''Hub'', ShareId ''k3x9q0a1lw2v7''] (loaded_world store0)))
       = [bm_github, bm_example, bm_shared]
   \<and> folders (snd (handleUpdateBookmark sim_platform ''b1''
                      [Title ''Hub'', ShareId ''k3x9q0a1lw2v7''] (loaded_world store0)))
       = [folder_all, folder_work]"
proof -
  have h: "fst (update_bookmark sim_platform ''b1'' [Title ''Hub'', ShareId ''k3x9q0a1lw2v7'']
                  (outside (loaded_world store0)))
             = Inl (unique_violation ''bookmarks_share_id_key'')"
    by code_simp
  have m: "bookmarks (loaded_world store0) = [bm_github, bm_example, bm_shared]"
    by (simp add: loaded_world_def initial_world_def store0_def)
  have f: "folders (loaded_world store0) = [folder_all, folder_work]"
    by (simp add: loaded_world_def initial_world_def store0_def)
  from handleUpdateBookmark_failure_frame [OF h] h m f
  show ?thesis by simp
qed

section \<open>Properties: sharing\<close>

lemma toString36_nonempty: "toString36 n \<noteq> []"
  by (subst toString36.simps) simp

lemma generateShareId_nonempty: "fst (generateShareId P w) \<noteq> []"
  by (simp add: generateShareId_def toString36_nonempty split: prod.splits)

lemma generateShareId_world:
  "generateShareId P w = (t, w1) \<Longrightarrow>
     bookmarks w1 = bookmarks w \<and> requests w1 = requests w \<and> alerts w1 = alerts w
     \<and> folders w1 = folders w"
  by (auto simp: generateShareId_def split: prod.splits)

text \<open>
  Whatever the update call answers, sharing a bookmark that has no token opens the modal
  on the freshly generated one.
\<close>

lemma handleShareBookmark_modal:
  "no_share_id b \<Longrightarrow>
     shareModal (handleShareBookmark P b w)
       = Some (b\<lparr>share_id := Some (fst (generateShareId P w))\<rparr>)"
  by (simp add: handleShareBookmark_def split: prod.splits)

text \<open>
  Claim C1. Sharing \<open>bm_github\<close>, which has no \<open>share_id\<close>, while the update query
  fails in transport: \<open>handleUpdateBookmark\<close> catches the error and alerts, the mirror
  keeps the bookmark without a \<open>share_id\<close>, and \<open>handleShareBookmark\<close> goes on to
  open the share modal with the generated token that was never stored.
\<close>

theorem handleShareBookmark_failed_persist:
  "no_share_id bm_github
   \<and> fst (handleUpdateBookmark sim_platform ''b1'' [ShareId ''4fzyo82mvyrrs'']
            (snd (generateShareId sim_platform (loaded_world (store0\<lparr>faults := [True]\<rparr>)))))
       = Failed network_error
   \<and> shareModal (handleShareBookmark sim_platform bm_github
                   (loaded_world (store0\<lparr>faults := [True]\<rparr>)))
       = Some (bm_github\<lparr>share_id := Some ''4fzyo82mvyrrs''\<rparr>)
   \<and> bookmarks (handleShareBookmark sim_platform bm_github
                  (loaded_world (store0\<lparr>faults := [True]\<rparr>)))
       = [bm_github, bm_example, bm_shared]
   \<and> alerts (handleShareBookmark sim_platform bm_github
               (loaded_world (store0\<lparr>faults := [True]\<rparr>)))
       = [''Failed to update bookmark'']"
  by code_simp

text \<open>
  Claim C6, as stated, fails on a bookmark that is already shared: two invocations show
  its token and issue no update call at all, not exactly one.
\<close>

theorem handleShareBookmark_shared_no_update:
  "\<not> no_share_id bm_shared
   \<and> bm_shared \<in> set (bookmarks (loaded_world store0))
   \<and> shareModal (handleShareBookmark sim_platform bm_shared (loaded_world store0))
       = Some bm_shared
   \<and> shareModal (handleShareBookmark sim_platform bm_shared
                   (handleShareBookmark sim_platform bm_shared (loaded_world store0)))
       = Some bm_shared
   \<and> update_calls (requests (handleShareBookmark sim_platform bm_shared
                      (handleShareBookmark sim_platform bm_shared (loaded_world store0))))
       = 0"
  by code_simp

text \<open>
  Claim C6, amended. A bookmark that carries a share token is shown as it is: the
  handler only opens the modal on it, so the token never changes and no remote call is
  issued. For a bookmark of the mirror without a token whose update call succeeds, the
  store returning a row \<open>b'\<close> with the requested token: the first invocation shows
  the generated token, \<open>b'\<close> takes the bookmark's place in the mirror, a second
  invocation on \<open>b'\<close> shows the same token and leaves the mirror alone, and exactly
  one update call is issued across the two invocations.
\<close>

theorem handleShareBookmark_idempotent:
  "(\<not> no_share_id b \<longrightarrow> handleShareBookmark P b w = w\<lparr>shareModal := Some b\<rparr>)
   \<and> (no_share_id b \<and> b \<in> set (bookmarks w) \<and> generateShareId P w = (t, w1)
        \<and> update_bookmark P (b_id b) [ShareId t] (outside w1) = (Inr b', r)
        \<and> share_id b' = Some t
      \<longrightarrow> shareModal (handleShareBookmark P b w) = Some (b\<lparr>share_id := Some t\<rparr>)
          \<and> b' \<in> set (bookmarks (handleShareBookmark P b w))
          \<and> (\<forall>x \<in> set (bookmarks (handleShareBookmark P b w)). b_id x = b_id b \<longrightarrow> x = b')
          \<and> shareModal (handleShareBookmark P b' (handleShareBookmark P b w)) = Some b'
          \<and> bookmarks (handleShareBookmark P b' (handleShareBookmark P b w))
              = bookmarks (handleShareBookmark P b w)
          \<and> requests (handleShareBookmark P b' (handleShareBookmark P b w))
              = requests w @ [BookmarksUpdate (b_id b) [ShareId t]]
          \<and> update_calls (requests (handleShareBookmark P b' (handleShareBookmark P b w)))
              = update_calls (requests w) + 1)"
proof (intro conjI impI)
  assume "\<not> no_share_id b"
  then show "handleShareBookmark P b w = w\<lparr>shareModal := Some b\<rparr>"
    by (simp add: handleShareBookmark_def)
next
  assume h: "no_share_id b \<and> b \<in> set (bookmarks w) \<and> generateShareId P w = (t, w1)
        \<and> update_bookmark P (b_id b) [ShareId t] (outside w1) = (Inr b', r)
        \<and> share_id b' = Some t"
  define wa where "wa = handleShareBookmark P b w"
  from h have g: "generateShareId P w = (t, w1)" by simp
  have t: "t \<noteq> []"
    using generateShareId_nonempty [of P w] g by simp
  from h t have shared: "\<not> no_share_id b'"
    by (simp add: no_share_id_def)
  from generateShareId_world [OF g]
  have w1: "bookmarks w1 = bookmarks w" "requests w1 = requests w"
    by simp_all
  from h w1 have wa: "wa = w1\<lparr>outside := r,
        requests := requests w @ [BookmarksUpdate (b_id b) [ShareId t]],
        bookmarks := map (\<lambda>x. if b_id x = b_id b then b' else x) (bookmarks w),
        shareModal := Some (b\<lparr>share_id := Some t\<rparr>)\<rparr>"
    by (simp add: wa_def handleShareBookmark_def handleUpdateBookmark_def
        bookmarksService_update_def)
  have wb: "handleShareBookmark P b' wa = wa\<lparr>shareModal := Some b'\<rparr>"
    using shared by (simp add: handleShareBookmark_def)
  show "shareModal (handleShareBookmark P b w) = Some (b\<lparr>share_id := Some t\<rparr>)"
    using wa by (simp add: wa_def [symmetric])
  show "b' \<in> set (bookmarks (handleShareBookmark P b w))"
    using wa h by (auto simp: wa_def [symmetric] image_iff intro!: bexI [of _ b])
  show "\<forall>x \<in> set (bookmarks (handleShareBookmark P b w)). b_id x = b_id b \<longrightarrow> x = b'"
    using wa by (auto simp: wa_def [symmetric] split: if_splits)
  show "shareModal (handleShareBookmark P b' (handleShareBookmark P b w)) = Some b'"
    using wb by (simp add: wa_def [symmetric])
  show "bookmarks (handleShareBookmark P b' (handleShareBookmark P b w))
              = bookmarks (handleShareBookmark P b w)"
    using wb by (simp add: wa_def [symmetric])
  show "requests (handleShareBookmark P b' (handleShareBookmark P b w))
              = requests w @ [BookmarksUpdate (b_id b) [ShareId t]]"
    using wb wa by (simp add: wa_def [symmetric])
  then show "update_calls (requests (handleShareBookmark P b' (handleShareBookmark P b w)))
              = update_calls (requests w) + 1"
    by (simp add: update_calls_def)
qed


theorem handleShareBookmark_idempotent_witness:
  "\<not> no_share_id bm_shared
   \<and> handleShareBookmark sim_platform bm_shared (loaded_world store0)
       = (loaded_world store0)\<lparr>shareModal := Some bm_shared\<rparr>
   \<and> no_share_id bm_github
   \<and> bm_github \<in> set (bookmarks (loaded_world store0))
   \<and> fst (generateShareId sim_platform (loaded_world store0)) = ''4fzyo82mvyrrs''
   \<and> fst (update_bookmark sim_platform (b_id bm_github) [ShareId ''4fzyo82mvyrrs'']
            (outside (snd (generateShareId sim_platform (loaded_world store0)))))
       = Inr (bm_github\<lparr>share_id := Some ''4fzyo82mvyrrs''\<rparr>)
   \<and> shareModal (handleShareBookmark sim_platform bm_github (loaded_world store0))
       = Some (bm_github\<lparr>share_id := Some ''4fzyo82mvyrrs''\<rparr>)
   \<and> shareModal (handleShareBookmark sim_platform
                   (bm_github\<lparr>share_id := Some ''4fzyo82mvyrrs''\<rparr>)
                   (handleShareBookmark sim_platform bm_github (loaded_world store0)))
       = Some (bm_github\<lparr>share_id := Some ''4fzyo82mvyrrs''\<rparr>)
   \<and> update_calls (requests (handleShareBookmark sim_platform
                      (bm_github\<lparr>share_id := Some ''4fzyo82mvyrrs''\<rparr>)
                      (handleShareBookmark sim_platform bm_github (loaded_world store0))))
       = 1"
proof -
  have a: "\<not> no_share_id bm_shared"
    by code_simp
  have b: "no_share_id bm_github"
    by code_simp
  have c: "bm_github \<in> set (bookmarks (loaded_world store0))"
    by (simp add: loaded_world_def initial_world_def store0_def)
  have d: "fst (generateShareId sim_platform (loaded_world store0)) = ''4fzyo82mvyrrs''"
    by code_simp
  then have d': "generateShareId sim_platform (loaded_world store0)
                   = (''4fzyo82mvyrrs'', snd (generateShareId sim_platform (loaded_world store0)))"
    by (metis prod.collapse)
  have e: "fst (update_bookmark sim_platform (b_id bm_github) [ShareId ''4fzyo82mvyrrs'']
                  (outside (snd (generateShareId sim_platform (loaded_world store0)))))
             = Inr (bm_github\<lparr>share_id := Some ''4fzyo82mvyrrs''\<rparr>)"
    by code_simp
  then have e': "update_bookmark sim_platform (b_id bm_github) [ShareId ''4fzyo82mvyrrs'']
                   (outside (snd (generateShareId sim_platform (loaded_world store0))))
                 = (Inr (bm_github\<lparr>share_id := Some ''4fzyo82mvyrrs''\<rparr>),
                    snd (update_bookmark sim_platform (b_id bm_github)
                           [ShareId ''4fzyo82mvyrrs'']
                           (outside (snd (generateShareId sim_platform (loaded_world store0))))))"
    by (metis prod.collapse)
  have f: "share_id (bm_github\<lparr>share_id := Some ''4fzyo82mvyrrs''\<rparr>) = Some ''4fzyo82mvyrrs''"
    by simp
  have g: "update_calls (requests (loaded_world store0)) = 0"
    by (simp add: loaded_world_def initial_world_def update_calls_def)
  from handleShareBookmark_idempotent
         [where b = bm_shared and P = sim_platform and w = "loaded_world store0"]
       a
  have first: "handleShareBookmark sim_platform bm_shared (loaded_world store0)
                 = (loaded_world store0)\<lparr>shareModal := Some bm_shared\<rparr>"
    by blast
  from handleShareBookmark_idempotent
         [where b = bm_github and P = sim_platform and w = "loaded_world store0"
            and t = "''4fzyo82mvyrrs''"
            and ?w1.0 = "snd (generateShareId sim_platform (loaded_world store0))"
            and b' = "bm_github\<lparr>share_id := Some ''4fzyo82mvyrrs''\<rparr>"
            and r = "snd (update_bookmark sim_platform (b_id bm_github)
                            [ShareId ''4fzyo82mvyrrs'']
                            (outside (snd (generateShareId sim_platform (loaded_world store0)))))"]
       b c d' e' f g
  have second: "shareModal (handleShareBookmark sim_platform bm_github (loaded_world store0))
       = Some (bm_github\<lparr>share_id := Some ''4fzyo82mvyrrs''\<rparr>)
   \<and> shareModal (handleShareBookmark sim_platform
                   (bm_github\<lparr>share_id := Some ''4fzyo82mvyrrs''\<rparr>)
                   (handleShareBookmark sim_platform bm_github (loaded_world store0)))
       = Some (bm_github\<lparr>share_id := Some ''4fzyo82mvyrrs''\<rparr>)
   \<and> update_calls (requests (handleShareBookmark sim_platform
                      (bm_github\<lparr>share_id := Some ''4fzyo82mvyrrs''\<rparr>)
                      (handleShareBookmark sim_platform bm_github (loaded_world store0))))
       = 1"
    by (simp add: update_calls_def)
  from a b c d e first second show ?thesis
    by blast
qed

section \<open>Properties: loading\<close>

text \<open>
  Claim C2, as stated, fails when the folders arrive and the bookmark fetch then fails:
  the load ends in the \<open>catch\<close> block with the fetched folders already in the mirror
  and no bookmarks.
\<close>

theorem loadUserData_partial_state:
  "fst (loadUserData sim_platform ''u1'' (initial_world (store0\<lparr>faults := [False, True]\<rparr>)))
     = Failed network_error
   \<and> folders (initial_world (store0\<lparr>faults := [False, True]\<rparr>)) = []
   \<and> folders (snd (loadUserData sim_platform ''u1''
                      (initial_world (store0\<lparr>faults := [False, True]\<rparr>))))
       = [folder_all, folder_work]
   \<and> bookmarks (snd (loadUserData sim_platform ''u1''
                        (initial_world (store0\<lparr>faults := [False, True]\<rparr>))))
       = []"
  by code_simp

text \<open>
  Claim C2, amended. A load that fails alerts the user with the text asking to refresh
  the page and clears the loading flag. The bookmark list is as it was before the load
  (empty on the initial load). The folder list is as it was before the load when the
  folder fetch or the creation of the default folder failed; when those succeeded and
  only the bookmark fetch failed, it holds the fetched folders or the new default folder.
\<close>

theorem loadUserData_failure:
  assumes "loadUserData P userId w = (Failed e, w')"
  shows "bookmarks w' = bookmarks w
       \<and> folders w' =
           (case select_folders P userId (outside w) of
              (Inl e1, r1) \<Rightarrow> folders w
            | (Inr foldersData, r1) \<Rightarrow>
                if foldersData \<noteq> [] then foldersData
                else (case insert_folder P
                             \<lparr>nf_user_id = userId, nf_name = ''All Bookmarks'',
                              nf_is_default = True\<rparr> r1 of
                        (Inl e2, r2) \<Rightarrow> folders w
                      | (Inr defaultFolder, r2) \<Rightarrow> [defaultFolder]))
       \<and> alerts w' = alerts w @ [''Error loading your data. Please refresh the page.'']
       \<and> loading w' = False"
  using assms
  by (auto simp: loadUserData_def loadUserData_failed_def foldersService_getAll_def
        foldersService_create_def bookmarksService_getAll_def
      split: prod.splits sum.splits if_splits)


theorem loadUserData_failure_witness:
  "loadUserData sim_platform ''u1'' (initial_world (store0\<lparr>faults := [True]\<rparr>))
     = (Failed network_error,
        snd (loadUserData sim_platform ''u1'' (initial_world (store0\<lparr>faults := [True]\<rparr>))))
   \<and> bookmarks (snd (loadUserData sim_platform ''u1''
                        (initial_world (store0\<lparr>faults := [True]\<rparr>))))
       = []
   \<and> folders (snd (loadUserData sim_platform ''u1''
                      (initial_world (store0\<lparr>faults := [True]\<rparr>))))
       = []
   \<and> alerts (snd (loadUserData sim_platform ''u1''
                     (initial_world (store0\<lparr>faults := [True]\<rparr>))))
       = [''Error loading your data. Please refresh the page.'']
   \<and> loading (snd (loadUserData sim_platform ''u1''
                      (initial_world (store0\<lparr>faults := [True]\<rparr>))))
       = False"
proof -
  have "fst (loadUserData sim_platform ''u1'' (initial_world (store0\<lparr>faults := [True]\<rparr>)))
          = Failed network_error"
    by code_simp
  then have h: "loadUserData sim_platform ''u1'' (initial_world (store0\<lparr>faults := [True]\<rparr>))
     = (Failed network_error,
        snd (loadUserData sim_platform ''u1'' (initial_world (store0\<lparr>faults := [True]\<rparr>))))"
    by (metis prod.collapse)
  have s: "fst (select_folders sim_platform ''u1''
                  (outside (initial_world (store0\<lparr>faults := [True]\<rparr>))))
             = Inl network_error"
    by code_simp
  have i: "bookmarks (initial_world (store0\<lparr>faults := [True]\<rparr>)) = []"
    "folders (initial_world (store0\<lparr>faults := [True]\<rparr>)) = []"
    "alerts (initial_world (store0\<lparr>faults := [True]\<rparr>)) = []"
    by (simp_all add: initial_world_def)
  from loadUserData_failure [OF h] h s i show ?thesis
    by (cases "select_folders sim_platform ''u1''
                 (outside (initial_world (store0\<lparr>faults := [True]\<rparr>)))") simp
qed

section \<open>Properties: the URL utilities\<close>

lemma scheme_state_no_colon:
  "CHR '':'' \<notin> set cs \<Longrightarrow> scheme_state buffer cs = None"
  by (induction cs arbitrary: buffer) auto

lemma url_input_subset: "set (url_input s) \<subseteq> set s"
proof
  fix x assume "x \<in> set (url_input s)"
  then have "x \<in> set (dropWhile isC0ControlOrSpace (rev (dropWhile isC0ControlOrSpace s)))"
    by (simp add: url_input_def)
  then have "x \<in> set (dropWhile isC0ControlOrSpace s)"
    using set_dropWhileD by fastforce
  then show "x \<in> set s"
    by (rule set_dropWhileD)
qed

lemma url_input_prefix:
  assumes "p \<noteq> []" and "\<not> isC0ControlOrSpace (hd p)" and "\<not> isC0ControlOrSpace (last p)"
    and "\<forall>c \<in> set p. \<not> isTabOrNewline c"
  shows "url_input (p @ s) =
           p @ filter (\<lambda>c. \<not> isTabOrNewline c) (rev (dropWhile isC0ControlOrSpace (rev s)))"
proof -
  from assms(1,2) have 1: "dropWhile isC0ControlOrSpace (p @ s) = p @ s"
    by (cases p) simp_all
  from assms(1,3) have "\<not> isC0ControlOrSpace (hd (rev p))"
    by (simp add: hd_rev)
  with assms(1) have "dropWhile isC0ControlOrSpace (rev p) = rev p"
    by (cases "rev p") simp_all
  then have 2: "dropWhile isC0ControlOrSpace (rev s @ rev p)
                  = dropWhile isC0ControlOrSpace (rev s) @ rev p"
    by (simp add: dropWhile_append)
  from assms(4) have 3: "filter (\<lambda>c. \<not> isTabOrNewline c) p = p"
    by (simp add: filter_id_conv)
  show ?thesis
    by (simp add: url_input_def 1 2 3)
qed

lemma url_input_https:
  "url_input (''https://'' @ s) =
     ''https://'' @ filter (\<lambda>c. \<not> isTabOrNewline c)
                      (rev (dropWhile isC0ControlOrSpace (rev s)))"
  by (rule url_input_prefix) (simp_all add: isC0ControlOrSpace_def isTabOrNewline_def)
lemma scheme_start_state_https:
  "scheme_start_state (''https://'' @ z) = Some (''https'', ''//'' @ z)"
  by (simp add: scheme_start_state_def isAsciiAlpha_def isAsciiDigit_def lower_ascii_def)

text \<open>
  Claim C10. The scheme test of both utilities is the literal prefix test
  \<open>startsWith('http')\<close>. A text that begins with \<open>http\<close> is handed to the URL
  constructor as it is, with no \<open>https://\<close> in front; when it has no scheme (which is
  the case for every text without a colon) the constructor fails, so \<open>isValidUrl\<close>
  is false and \<open>normalizeUrl\<close> is \<open>null\<close>. A text that does not begin with
  \<open>http\<close> gets the prefix and fares as the prefixed text does, so a host name the
  parser accepts is accepted unless it begins with \<open>http\<close>.
\<close>

theorem url_scheme_test_is_prefix_test:
  "(startsWith s ''http'' \<and> scheme_start_state (url_input s) = None
      \<longrightarrow> url_argument s = s \<and> \<not> isValidUrl rest s \<and> normalizeUrl rest s = None)
   \<and> (startsWith s ''http'' \<and> CHR '':'' \<notin> set s
      \<longrightarrow> scheme_start_state (url_input s) = None)
   \<and> (\<not> startsWith t ''http''
      \<longrightarrow> url_argument t = ''https://'' @ t
          \<and> isValidUrl rest t = isValidUrl rest (''https://'' @ t)
          \<and> normalizeUrl rest t = normalizeUrl rest (''https://'' @ t))"
proof (intro conjI impI)
  assume h: "startsWith s ''http'' \<and> scheme_start_state (url_input s) = None"
  then show "url_argument s = s" by (simp add: url_argument_def)
  from h show "\<not> isValidUrl rest s" by (simp add: isValidUrl_def url_argument_def new_URL_def)
  from h show "normalizeUrl rest s = None"
    by (simp add: normalizeUrl_def url_argument_def new_URL_def)
next
  assume "startsWith s ''http'' \<and> CHR '':'' \<notin> set s"
  then have "CHR '':'' \<notin> set (url_input s)"
    using url_input_subset by blast
  then show "scheme_start_state (url_input s) = None"
    by (auto simp: scheme_start_state_def scheme_state_no_colon split: list.splits)
next
  assume h: "\<not> startsWith t ''http''"
  then show "url_argument t = ''https://'' @ t" by (simp add: url_argument_def)
  from h show "isValidUrl rest t = isValidUrl rest (''https://'' @ t)"
    by (simp add: isValidUrl_def url_argument_def startsWith_def)
  from h show "normalizeUrl rest t = normalizeUrl rest (''https://'' @ t)"
    by (simp add: normalizeUrl_def url_argument_def startsWith_def)
qed


theorem url_scheme_test_is_prefix_test_witness:
  "startsWith ''httpbin.org'' ''http'' \<and> CHR '':'' \<notin> set ''httpbin.org''
   \<and> scheme_start_state (url_input ''httpbin.org'') = None
   \<and> url_argument ''httpbin.org'' = ''httpbin.org''
   \<and> \<not> isValidUrl sim_url_rest ''httpbin.org''
   \<and> normalizeUrl sim_url_rest ''httpbin.org'' = None
   \<and> startsWith ''http.example.com'' ''http''
   \<and> \<not> isValidUrl sim_url_rest ''http.example.com''
   \<and> normalizeUrl sim_url_rest ''http.example.com'' = None
   \<and> \<not> startsWith ''bin.org'' ''http''
   \<and> url_argument ''bin.org'' = ''https://bin.org''
   \<and> isValidUrl sim_url_rest ''bin.org''
   \<and> normalizeUrl sim_url_rest ''bin.org'' = Some ''https://bin.org/''"
proof -
  have a: "startsWith ''httpbin.org'' ''http''" by code_simp
  have b: "CHR '':'' \<notin> set ''httpbin.org''" by simp
  have c: "\<not> startsWith ''bin.org'' ''http''" by code_simp
  have d: "isValidUrl sim_url_rest ''bin.org''" by code_simp
  have e: "normalizeUrl sim_url_rest ''bin.org'' = Some ''https://bin.org/''" by code_simp
  have f: "startsWith ''http.example.com'' ''http''" by code_simp
  have g: "CHR '':'' \<notin> set ''http.example.com''" by simp
  from url_scheme_test_is_prefix_test
         [where s = "''http.example.com''" and t = "''bin.org''" and rest = sim_url_rest]
       f g
  have h: "\<not> isValidUrl sim_url_rest ''http.example.com''
           \<and> normalizeUrl sim_url_rest ''http.example.com'' = None"
    by blast
  from url_scheme_test_is_prefix_test
         [where s = "''httpbin.org''" and t = "''bin.org''" and rest = sim_url_rest]
       a b c d e f h
  show ?thesis by simp
qed

text \<open>
  Claim C3, as stated, fails twice. The scheme-less \<open>httpbin.org\<close> gets no prefix and
  normalises to \<open>null\<close>, not to what \<open>https://httpbin.org\<close> normalises to. And
  the input is not trimmed: with a leading space the prefixed text has a space in its
  host and is rejected, where the trimmed text would normalise.
\<close>

theorem normalizeUrl_not_as_specified:
  "normalizeUrl sim_url_rest ''httpbin.org'' = None
   \<and> normalizeUrl sim_url_rest ''https://httpbin.org'' = Some ''https://httpbin.org/''
   \<and> normalize_as_specified sim_url_rest ''httpbin.org'' = Some ''https://httpbin.org/''
   \<and> normalizeUrl sim_url_rest '' example.com'' = None
   \<and> normalizeUrl sim_url_rest ''example.com'' = Some ''https://example.com/''
   \<and> normalize_as_specified sim_url_rest '' example.com'' = Some ''https://example.com/''"
  by code_simp

text \<open>
  Claim C3, amended. \<open>normalizeUrl\<close> does not trim. It hands its input to the URL
  constructor as it is when the input begins with the four characters \<open>http\<close>, and
  with \<open>https://\<close> in front otherwise, and returns the serialised URL, or
  \<open>null\<close> when the constructor fails. Consequently every input that does not begin
  with \<open>http\<close> normalises exactly as the same text with \<open>https://\<close> in front
  does, with the scheme \<open>https\<close>: the result is what the rest of the parser makes
  of \<open>//\<close> followed by the input, of which the constructor has stripped trailing
  (not leading) controls and spaces and removed tabs and newlines.
\<close>

theorem normalizeUrl_contract:
  "normalizeUrl rest s = map_option href (new_URL rest (url_argument s))
   \<and> (startsWith s ''http'' \<longrightarrow> url_argument s = s)
   \<and> (\<not> startsWith s ''http''
      \<longrightarrow> url_argument s = ''https://'' @ s
          \<and> normalizeUrl rest s = normalizeUrl rest (''https://'' @ s)
          \<and> normalizeUrl rest s =
               map_option fst
                 (rest ''https''
                    (''//'' @ filter (\<lambda>c. \<not> isTabOrNewline c)
                               (rev (dropWhile isC0ControlOrSpace (rev s))))))"
proof (intro conjI impI)
  show "normalizeUrl rest s = map_option href (new_URL rest (url_argument s))"
    by (simp add: normalizeUrl_def split: option.splits)
next
  assume "startsWith s ''http''"
  then show "url_argument s = s" by (simp add: url_argument_def)
next
  assume h: "\<not> startsWith s ''http''"
  then show a: "url_argument s = ''https://'' @ s" by (simp add: url_argument_def)
  from h show "normalizeUrl rest s = normalizeUrl rest (''https://'' @ s)"
    by (simp add: normalizeUrl_def url_argument_def startsWith_def)
  show "normalizeUrl rest s =
               map_option fst
                 (rest ''https''
                    (''//'' @ filter (\<lambda>c. \<not> isTabOrNewline c)
                               (rev (dropWhile isC0ControlOrSpace (rev s)))))"
    unfolding normalizeUrl_def a new_URL_def url_input_https scheme_start_state_https
    by (simp split: option.splits)
qed



theorem normalizeUrl_contract_witness:
  "\<not> startsWith ''example.com'' ''http''
   \<and> url_argument ''example.com'' = ''https://example.com''
   \<and> normalizeUrl sim_url_rest ''example.com'' = Some ''https://example.com/''
   \<and> normalizeUrl sim_url_rest ''https://example.com'' = Some ''https://example.com/''
   \<and> startsWith ''https://example.com'' ''http''
   \<and> url_argument ''https://example.com'' = ''https://example.com''"
proof -
  have a: "\<not> startsWith ''example.com'' ''http''" by code_simp
  have b: "startsWith ''https://example.com'' ''http''" by code_simp
  have c: "normalizeUrl sim_url_rest ''https://example.com'' = Some ''https://example.com/''"
    by code_simp
  have l: "''https://'' @ ''example.com'' = ''https://example.com''" by simp
  from normalizeUrl_contract [where s = "''example.com''" and rest = sim_url_rest] a
  have "url_argument ''example.com'' = ''https://'' @ ''example.com''"
    and "normalizeUrl sim_url_rest ''example.com''
           = normalizeUrl sim_url_rest (''https://'' @ ''example.com'')"
    by blast+
  then have d: "url_argument ''example.com'' = ''https://example.com''"
    and e: "normalizeUrl sim_url_rest ''example.com'' = Some ''https://example.com/''"
    unfolding l c by blast+
  from normalizeUrl_contract [where s = "''https://example.com''" and rest = sim_url_rest] b
  have f: "url_argument ''https://example.com'' = ''https://example.com''"
    by blast
  from a b c d e f show ?thesis by blast
qed

section \<open>Properties: adding a bookmark\<close>

text \<open>
  Claim C4. For a non-empty, valid input: when the duplicate check finds a bookmark of
  the same owner with the normalised URL, the submission is rejected with
  \<open>This bookmark already exists\<close>, the check is the only call issued (no create
  call) and the mirror is unchanged. When the check is bypassed (it reports no match, or
  the check itself fails) and the store rejects the insert with an error whose message
  mentions \<open>duplicate\<close>, as its uniqueness constraint does, the same text is shown
  and the mirror is unchanged.
\<close>

theorem handleAddBookmark_duplicate:
  "(trim (urlInput w) \<noteq> [] \<and> isValidUrl (url_rest P) (urlInput w)
      \<and> fst (select_bookmark_id P userId (normalizeUrl (url_rest P) (urlInput w)) (outside w))
          = Inr (Some ident)
    \<longrightarrow> fst (handleAddBookmark P userId w) = Rejected
        \<and> urlError (snd (handleAddBookmark P userId w)) = ''This bookmark already exists''
        \<and> requests (snd (handleAddBookmark P userId w))
            = requests w
              @ [BookmarksCheckDuplicate userId (normalizeUrl (url_rest P) (urlInput w))]
        \<and> bookmarks (snd (handleAddBookmark P userId w)) = bookmarks w
        \<and> folders (snd (handleAddBookmark P userId w)) = folders w)
   \<and> (trim (urlInput w) \<noteq> [] \<and> isValidUrl (url_rest P) (urlInput w)
      \<and> select_bookmark_id P userId (normalizeUrl (url_rest P) (urlInput w)) (outside w)
          = (guard, r1)
      \<and> (guard = Inr None \<or> guard = Inl e0)
      \<and> fst (insert_bookmark P
                (create_payload (url_rest P) userId (normalizeUrl (url_rest P) (urlInput w))
                   (selectedFolder w)) r1)
          = Inl e
      \<and> error_mentions_duplicate e
    \<longrightarrow> fst (handleAddBookmark P userId w) = Failed e
        \<and> urlError (snd (handleAddBookmark P userId w)) = ''This bookmark already exists''
        \<and> bookmarks (snd (handleAddBookmark P userId w)) = bookmarks w
        \<and> folders (snd (handleAddBookmark P userId w)) = folders w)"
proof (intro conjI impI)
  assume h: "trim (urlInput w) \<noteq> [] \<and> isValidUrl (url_rest P) (urlInput w)
      \<and> fst (select_bookmark_id P userId (normalizeUrl (url_rest P) (urlInput w)) (outside w))
          = Inr (Some ident)"
  then have r: "handleAddBookmark P userId w =
      (Rejected,
       w\<lparr>urlError := ''This bookmark already exists'',
         outside := snd (select_bookmark_id P userId (normalizeUrl (url_rest P) (urlInput w))
                          (outside w)),
         requests := requests w
              @ [BookmarksCheckDuplicate userId (normalizeUrl (url_rest P) (urlInput w))]\<rparr>)"
    by (cases "select_bookmark_id P userId (normalizeUrl (url_rest P) (urlInput w)) (outside w)")
       (simp add: handleAddBookmark_def Let_def bookmarksService_checkDuplicate_def)
  show "fst (handleAddBookmark P userId w) = Rejected"
    "urlError (snd (handleAddBookmark P userId w)) = ''This bookmark already exists''"
    "requests (snd (handleAddBookmark P userId w))
            = requests w
              @ [BookmarksCheckDuplicate userId (normalizeUrl (url_rest P) (urlInput w))]"
    "bookmarks (snd (handleAddBookmark P userId w)) = bookmarks w"
    "folders (snd (handleAddBookmark P userId w)) = folders w"
    by (simp_all add: r)
next
  assume h: "trim (urlInput w) \<noteq> [] \<and> isValidUrl (url_rest P) (urlInput w)
      \<and> select_bookmark_id P userId (normalizeUrl (url_rest P) (urlInput w)) (outside w)
          = (guard, r1)
      \<and> (guard = Inr None \<or> guard = Inl e0)
      \<and> fst (insert_bookmark P
                (create_payload (url_rest P) userId (normalizeUrl (url_rest P) (urlInput w))
                   (selectedFolder w)) r1)
          = Inl e
      \<and> error_mentions_duplicate e"
  define nb where "nb = create_payload (url_rest P) userId
                          (normalizeUrl (url_rest P) (urlInput w)) (selectedFolder w)"
  from h have r: "handleAddBookmark P userId w =
      (Failed e,
       w\<lparr>urlError := ''This bookmark already exists'',
         isLoadingMetadata := False,
         outside := snd (insert_bookmark P nb r1),
         requests := requests w
              @ [BookmarksCheckDuplicate userId (normalizeUrl (url_rest P) (urlInput w)),
                 BookmarksCreate nb]\<rparr>)"
    by (cases "insert_bookmark P nb r1")
       (auto simp: handleAddBookmark_def Let_def bookmarksService_checkDuplicate_def
          addBookmark_create_def bookmarksService_create_def nb_def)
  show "fst (handleAddBookmark P userId w) = Failed e"
    "urlError (snd (handleAddBookmark P userId w)) = ''This bookmark already exists''"
    "bookmarks (snd (handleAddBookmark P userId w)) = bookmarks w"
    "folders (snd (handleAddBookmark P userId w)) = folders w"
    by (simp_all add: r)
qed


theorem handleAddBookmark_duplicate_witness:
  "trim (urlInput (typing_world store0 ''example.com'')) \<noteq> []
   \<and> isValidUrl sim_url_rest ''example.com''
   \<and> normalizeUrl sim_url_rest ''example.com'' = Some (url bm_example)
   \<and> bm_example \<in> set (t_bookmarks store0)
   \<and> fst (handleAddBookmark sim_platform ''u1'' (typing_world store0 ''example.com''))
       = Rejected
   \<and> urlError (snd (handleAddBookmark sim_platform ''u1''
                       (typing_world store0 ''example.com'')))
       = ''This bookmark already exists''
   \<and> requests (snd (handleAddBookmark sim_platform ''u1''
                       (typing_world store0 ''example.com'')))
       = [BookmarksCheckDuplicate ''u1'' (Some ''https://example.com/'')]
   \<and> bookmarks (snd (handleAddBookmark sim_platform ''u1''
                        (typing_world store0 ''example.com'')))
       = bookmarks (typing_world store0 ''example.com'')
   \<and> fst (handleAddBookmark sim_platform ''u1''
            (typing_world (store0\<lparr>faults := [True]\<rparr>) ''example.com''))
       = Failed (unique_violation ''bookmarks_user_id_url_key'')
   \<and> urlError (snd (handleAddBookmark sim_platform ''u1''
                       (typing_world (store0\<lparr>faults := [True]\<rparr>) ''example.com'')))
       = ''This bookmark already exists''
   \<and> bookmarks (snd (handleAddBookmark sim_platform ''u1''
                        (typing_world (store0\<lparr>faults := [True]\<rparr>) ''example.com'')))
       = bookmarks (typing_world (store0\<lparr>faults := [True]\<rparr>) ''example.com'')"
proof -
  let ?w1 = "typing_world store0 ''example.com''"
  let ?w2 = "typing_world (store0\<lparr>faults := [True]\<rparr>) ''example.com''"
  have rest: "url_rest sim_platform = sim_url_rest"
    by (simp add: sim_platform_def)
  have a1: "trim (urlInput ?w1) \<noteq> []" by code_simp
  have a2: "isValidUrl (url_rest sim_platform) (urlInput ?w1)" by code_simp
  have a3: "fst (select_bookmark_id sim_platform ''u1''
                   (normalizeUrl (url_rest sim_platform) (urlInput ?w1)) (outside ?w1))
              = Inr (Some ''b2'')"
    by code_simp
  have a4: "normalizeUrl (url_rest sim_platform) (urlInput ?w1) = Some ''https://example.com/''"
    by code_simp
  have a5: "requests ?w1 = []" by code_simp
  have a6: "isValidUrl sim_url_rest ''example.com''" by code_simp
  have a7: "normalizeUrl sim_url_rest ''example.com'' = Some (url bm_example)" by code_simp
  have a8: "bm_example \<in> set (t_bookmarks store0)" by (simp add: store0_def)
  have b1: "trim (urlInput ?w2) \<noteq> []" by code_simp
  have b2: "isValidUrl (url_rest sim_platform) (urlInput ?w2)" by code_simp
  have "fst (select_bookmark_id sim_platform ''u1''
               (normalizeUrl (url_rest sim_platform) (urlInput ?w2)) (outside ?w2))
          = Inl network_error"
    by code_simp
  then have b3: "select_bookmark_id sim_platform ''u1''
                   (normalizeUrl (url_rest sim_platform) (urlInput ?w2)) (outside ?w2)
                 = (Inl network_error,
                    snd (select_bookmark_id sim_platform ''u1''
                           (normalizeUrl (url_rest sim_platform) (urlInput ?w2)) (outside ?w2)))"
    by (metis prod.collapse)
  have b4: "fst (insert_bookmark sim_platform
                   (create_payload (url_rest sim_platform) ''u1''
                      (normalizeUrl (url_rest sim_platform) (urlInput ?w2)) (selectedFolder ?w2))
                   (snd (select_bookmark_id sim_platform ''u1''
                           (normalizeUrl (url_rest sim_platform) (urlInput ?w2)) (outside ?w2))))
              = Inl (unique_violation ''bookmarks_user_id_url_key'')"
    by code_simp
  have b5: "error_mentions_duplicate (unique_violation ''bookmarks_user_id_url_key'')"
    by code_simp
  from handleAddBookmark_duplicate
         [where w = ?w1 and P = sim_platform and userId = "''u1''" and ident = "''b2''"]
       a1 a2 a3
  have p1: "fst (handleAddBookmark sim_platform ''u1'' ?w1) = Rejected
        \<and> urlError (snd (handleAddBookmark sim_platform ''u1'' ?w1))
            = ''This bookmark already exists''
        \<and> requests (snd (handleAddBookmark sim_platform ''u1'' ?w1))
            = requests ?w1
              @ [BookmarksCheckDuplicate ''u1''
                   (normalizeUrl (url_rest sim_platform) (urlInput ?w1))]
        \<and> bookmarks (snd (handleAddBookmark sim_platform ''u1'' ?w1)) = bookmarks ?w1"
    by blast
  from handleAddBookmark_duplicate
         [where w = ?w2 and P = sim_platform and userId = "''u1''"
            and guard = "Inl network_error" and ?e0.0 = network_error
            and ?r1.0 = "snd (select_bookmark_id sim_platform ''u1''
                           (normalizeUrl (url_rest sim_platform) (urlInput ?w2)) (outside ?w2))"
            and e = "unique_violation ''bookmarks_user_id_url_key''"]
       b1 b2 b3 b4 b5
  have p2: "fst (handleAddBookmark sim_platform ''u1'' ?w2)
            = Failed (unique_violation ''bookmarks_user_id_url_key'')
        \<and> urlError (snd (handleAddBookmark sim_platform ''u1'' ?w2))
            = ''This bookmark already exists''
        \<and> bookmarks (snd (handleAddBookmark sim_platform ''u1'' ?w2)) = bookmarks ?w2"
    by blast
  from p1 have p1': "requests (snd (handleAddBookmark sim_platform ''u1'' ?w1))
            = [BookmarksCheckDuplicate ''u1'' (Some ''https://example.com/'')]"
    unfolding a4 a5 by simp
  from a1 a6 a7 a8 p1 p1' p2 show ?thesis
    by blast
qed

end
